theory Spec2Isabelle
  imports Main
begin

section \<open>Values shared by the package\<close>

text \<open>
  A Go \<^verbatim>\<open>error\<close> is an interface value: \<open>None\<close> is \<^verbatim>\<open>nil\<close>, \<open>Some (Error msg)\<close> an
  error with its message. A panic of the Go runtime, or one raised by code the user plugs
  in (a custom matcher, a preprocessor), is a value of type \<open>panic\<close>; a function that can
  panic returns \<open>panic + 'a\<close>, with \<open>Inl\<close> the panic.
\<close>

datatype error = Error string

datatype panic = NilPointerDereference | Panic string

text \<open>
  \<^verbatim>\<open>*slack.MessageEvent\<close>: the fields of the event that this package reads. A pointer is an
  option, \<open>None\<close> being \<^verbatim>\<open>nil\<close>. A \<^verbatim>\<open>*Bot\<close> is never dereferenced by the router, so a
  bot is an opaque reference.
\<close>

record MessageEvent =
  Channel :: string
  User :: string
  Text :: string

datatype Bot_ref = Bot_ref nat

section \<open>context.go\<close>

text \<open>
  \<^verbatim>\<open>context.Context\<close> as the chain that \<^verbatim>\<open>context.WithValue\<close> builds over
  \<^verbatim>\<open>context.Background()\<close>; \<open>Value\<close> returns the value of the nearest entry with the key
  and the nil interface when there is none. The two keys of this package have the
  unexported type \<^verbatim>\<open>key\<close>, so a key of any other package (\<open>foreign_key\<close>) differs from
  both. A stored value is an \<^verbatim>\<open>interface{}\<close>: the nil interface, a \<^verbatim>\<open>*Bot\<close> (possibly a
  nil pointer), a \<^verbatim>\<open>*slack.MessageEvent\<close> (possibly a nil pointer), or a value of another
  type.

  A value of the interface type \<^verbatim>\<open>context.Context\<close> is a \<open>Context option\<close>: \<open>None\<close> is
  the nil interface, \<open>Some c\<close> a context of the \<^verbatim>\<open>context\<close> package (its cancellation and
  deadline contexts hand \<^verbatim>\<open>Value\<close> on to their parent, so they read as the parent does). The accessors take such a value. Calling
  \<^verbatim>\<open>ctx.Value\<close> on the nil interface panics, and \<^verbatim>\<open>context.WithValue\<close> panics on a
  nil parent; what \<^verbatim>\<open>WithValue\<close> returns is never nil.
\<close>

datatype key = bot_context_key | message_context_key | foreign_key nat

datatype any = nil_any | Bot_ptr "Bot_ref option" | MessageEvent_ptr "MessageEvent option"
  | other_any nat

datatype Context = Background | WithValue Context key any

fun Value :: "Context \<Rightarrow> key \<Rightarrow> any" where
  "Value Background k = nil_any"
| "Value (WithValue parent k' v) k = (if k' = k then v else Value parent k)"

definition BotFromContext :: "Context option \<Rightarrow> panic + Bot_ref option" where
  "BotFromContext ctx =
     (case ctx of
        None \<Rightarrow> Inl NilPointerDereference
      | Some c \<Rightarrow>
          (case Value c bot_context_key of Bot_ptr result \<Rightarrow> Inr result | _ \<Rightarrow> Inr None))"

definition AddBotToContext :: "Context option \<Rightarrow> Bot_ref option \<Rightarrow> panic + Context" where
  "AddBotToContext ctx b =
     (case ctx of
        None \<Rightarrow> Inl (Panic ''cannot create context from nil parent'')
      | Some c \<Rightarrow> Inr (WithValue c bot_context_key (Bot_ptr b)))"

definition MessageFromContext :: "Context option \<Rightarrow> panic + MessageEvent option" where
  "MessageFromContext ctx =
     (case ctx of
        None \<Rightarrow> Inl NilPointerDereference
      | Some c \<Rightarrow>
          (case Value c message_context_key of
             MessageEvent_ptr result \<Rightarrow> Inr result
           | _ \<Rightarrow> Inr None))"

definition AddMessageToContext :: "Context option \<Rightarrow> MessageEvent option
    \<Rightarrow> panic + Context" where
  "AddMessageToContext ctx msg =
     (case ctx of
        None \<Rightarrow> Inl (Panic ''cannot create context from nil parent'')
      | Some c \<Rightarrow> Inr (WithValue c message_context_key (MessageEvent_ptr msg)))"

section \<open>Handlers, preprocessors and matchers\<close>

text \<open>
  A \<^verbatim>\<open>Handler\<close> is a Go function value; the router only stores it and hands it back, so
  a handler is named by an identifier: \<open>HandlerFunc n\<close> is a function of the user,
  \<open>MessageHandlerClosure fn\<close> the closure that \<^verbatim>\<open>Route.MessageHandler\<close> builds around the
  user's \<^verbatim>\<open>MessageHandler\<close> \<open>fn\<close> (which may be nil; the closure is not). A nil handler is
  \<open>None\<close>. A \<^verbatim>\<open>Preprocessor\<close> is a function on contexts that may panic.
\<close>

datatype Handler = HandlerFunc nat | MessageHandlerClosure "nat option"

type_synonym Preprocessor = "Context \<Rightarrow> panic + Context"

type_synonym MessageType = int

definition DirectMessage :: MessageType where
  "DirectMessage = 0"

definition DirectMention :: MessageType where
  "DirectMention = 1"

text \<open>
  What the matchers call outside route.go: \<^verbatim>\<open>regexp.Compile\<close> and
  \<^verbatim>\<open>(*Regexp).MatchString\<close> of the Go library, and \<^verbatim>\<open>StripDirectMention\<close>,
  \<^verbatim>\<open>IsDirectMessage\<close> and \<^verbatim>\<open>IsDirectMention\<close>, which the package declares in a file that
  is not among the sources. They are parameters of the model; the two classifiers receive
  the event pointer as it is and may panic on it.
\<close>

datatype Regexp = Regexp string

record externals =
  regexp_Compile :: "string \<Rightarrow> error + Regexp"
  regexp_MatchString :: "Regexp \<Rightarrow> string \<Rightarrow> bool"
  StripDirectMention :: "string \<Rightarrow> string"
  IsDirectMessage :: "MessageEvent option \<Rightarrow> panic + bool"
  IsDirectMention :: "MessageEvent option \<Rightarrow> string \<Rightarrow> panic + bool"

text \<open>
  The implementers of the \<^verbatim>\<open>Matcher\<close> interface: the two of route.go, and a matcher
  supplied through \<^verbatim>\<open>AddMatcher\<close>. A custom matcher is its \<^verbatim>\<open>Match\<close> method, a function
  of the bot identity last handed to its \<^verbatim>\<open>SetBotID\<close> and of the context, which may
  panic; \<open>cm_botUserID\<close> records that identity.

  A route holds its matchers by value: the model covers trees in which no matcher object
  is registered on two routes. \<^verbatim>\<open>Hear\<close> and \<^verbatim>\<open>Messages\<close> always allocate the matcher
  they add; only a caller of \<^verbatim>\<open>AddMatcher\<close> can register one matcher twice, and the
  source would then write an identity through the shared pointer into both routes.
\<close>

datatype Matcher =
    RegexpMatcher (regex: "Regexp option") (rm_botUserID: string)
  | TypesMatcher (types: "MessageType list") (tm_botUserID: string)
  | CustomMatcher (cm_Match: "string \<Rightarrow> Context \<Rightarrow> panic + bool \<times> Context")
      (cm_botUserID: string)

fun Matcher_SetBotID :: "Matcher \<Rightarrow> string \<Rightarrow> Matcher" where
  "Matcher_SetBotID (RegexpMatcher re b) botID = RegexpMatcher re botID"
| "Matcher_SetBotID (TypesMatcher ts b) botID = TypesMatcher ts botID"
| "Matcher_SetBotID (CustomMatcher f b) botID = CustomMatcher f botID"

fun Matcher_botUserID :: "Matcher \<Rightarrow> string" where
  "Matcher_botUserID (RegexpMatcher re b) = b"
| "Matcher_botUserID (TypesMatcher ts b) = b"
| "Matcher_botUserID (CustomMatcher f b) = b"

text \<open>The loop of \<^verbatim>\<open>TypesMatcher.Match\<close> over the requested types.\<close>

fun types_loop :: "externals \<Rightarrow> MessageType list \<Rightarrow> string \<Rightarrow> MessageEvent option
    \<Rightarrow> panic + bool" where
  "types_loop lib [] botID msg = Inr False"
| "types_loop lib (t # ts) botID msg =
     (if t = DirectMessage then
        (case IsDirectMessage lib msg of
           Inl p \<Rightarrow> Inl p
         | Inr b \<Rightarrow> if b then Inr True else types_loop lib ts botID msg)
      else if t = DirectMention then
        (case IsDirectMention lib msg botID of
           Inl p \<Rightarrow> Inl p
         | Inr b \<Rightarrow> if b then Inr True else types_loop lib ts botID msg)
      else types_loop lib ts botID msg)"

text \<open>
  \<^verbatim>\<open>Matcher.Match\<close>, on a context that is not nil. \<^verbatim>\<open>RegexpMatcher.Match\<close> reads
  \<^verbatim>\<open>msg.Text\<close> without a nil check and calls \<^verbatim>\<open>MatchString\<close> on its regex pointer:
  both panic on nil.
\<close>

fun Matcher_Match :: "externals \<Rightarrow> Matcher \<Rightarrow> Context \<Rightarrow> panic + bool \<times> Context" where
  "Matcher_Match lib (RegexpMatcher re b) ctx =
     (case MessageFromContext (Some ctx) of
        Inl p \<Rightarrow> Inl p
      | Inr None \<Rightarrow> Inl NilPointerDereference
      | Inr (Some msg) \<Rightarrow>
          (case re of
             None \<Rightarrow> Inl NilPointerDereference
           | Some rx \<Rightarrow> Inr (regexp_MatchString lib rx (StripDirectMention lib (Text msg)), ctx)))"
| "Matcher_Match lib (TypesMatcher ts b) ctx =
     (case MessageFromContext (Some ctx) of
        Inl p \<Rightarrow> Inl p
      | Inr msg \<Rightarrow>
          (case types_loop lib ts b msg of
             Inl p \<Rightarrow> Inl p
           | Inr matched \<Rightarrow> Inr (matched, ctx)))"
| "Matcher_Match lib (CustomMatcher f b) ctx = f b ctx"

section \<open>Route and SimpleRouter\<close>

text \<open>
  The structs \<^verbatim>\<open>Route\<close> (route.go) and \<^verbatim>\<open>SimpleRouter\<close>, which refer to each other:
  a route owns an optional subrouter (only \<^verbatim>\<open>Route.Subrouter\<close> sets the field, always to
  a \<^verbatim>\<open>*SimpleRouter\<close>), a router owns its routes in registration order.
\<close>

datatype Route = Route
    (handler: "Handler option")
    (err: "error option")
    (matchers: "Matcher list")
    (subrouter: "SimpleRouter option")
    (preprocessor: "Preprocessor option")
    (botUserID: string)
    (talkToSelf: bool)
and SimpleRouter = SimpleRouter
    (routes: "Route list")
    (router_botUserID: string)
    (router_err: "error option")
    (router_talkToSelf: bool)

text \<open>
  \<^verbatim>\<open>RouteMatch\<close>: the record a caller passes to \<^verbatim>\<open>Match\<close> by pointer. The route pointer
  is the matched route as it is at the time of the match.
\<close>

record RouteMatch =
  match_Route :: "Route option"
  match_Handler :: "Handler option"

text \<open>The loop of \<^verbatim>\<open>Route.Match\<close> over the route's matchers, threading the context.\<close>

fun matchers_loop :: "externals \<Rightarrow> Matcher list \<Rightarrow> Context \<Rightarrow> panic + bool \<times> Context" where
  "matchers_loop lib [] ctx = Inr (True, ctx)"
| "matchers_loop lib (m # ms) ctx =
     (case Matcher_Match lib m ctx of
        Inl p \<Rightarrow> Inl p
      | Inr (matched, ctx') \<Rightarrow>
          if \<not> matched then Inr (False, ctx') else matchers_loop lib ms ctx')"

text \<open>
  The self-talk test of \<^verbatim>\<open>Route.Match\<close> (line 40) on the event pointer \<open>ev\<close> that
  \<^verbatim>\<open>MessageFromContext\<close> returned:
  \<^verbatim>\<open>ev != nil && !r.talkToSelf && r.botUserID == ev.User\<close>.
\<close>

definition self_talk_blocked :: "Route \<Rightarrow> MessageEvent option \<Rightarrow> bool" where
  "self_talk_blocked r ev =
     (case ev of
        None \<Rightarrow> False
      | Some e \<Rightarrow> \<not> talkToSelf r \<and> botUserID r = User e)"

definition run_preprocessor :: "Preprocessor option \<Rightarrow> Context \<Rightarrow> panic + Context" where
  "run_preprocessor pre ctx = (case pre of None \<Rightarrow> Inr ctx | Some f \<Rightarrow> f ctx)"

text \<open>
  \<^verbatim>\<open>Route.Match\<close>, \<^verbatim>\<open>SimpleRouter.Match\<close> and the loop of the latter over its routes,
  on a context that is not nil (the dispatcher of bot.go builds it over
  \<^verbatim>\<open>context.Background()\<close>). The result is the returned pair together with the
  \<^verbatim>\<open>RouteMatch\<close> record behind the pointer after the call. In the router's loop the \<^verbatim>\<open>ctx\<close> of the \<^verbatim>\<open>if\<close> statement
  shadows the parameter, so every route starts from the router's own context, while the
  record is shared by all calls.
\<close>

fun Route_Match :: "externals \<Rightarrow> Route \<Rightarrow> Context \<Rightarrow> RouteMatch
      \<Rightarrow> panic + bool \<times> Context \<times> RouteMatch"
  and SimpleRouter_Match :: "externals \<Rightarrow> SimpleRouter \<Rightarrow> Context \<Rightarrow> RouteMatch
      \<Rightarrow> panic + bool \<times> Context \<times> RouteMatch"
  and routes_loop :: "externals \<Rightarrow> Route list \<Rightarrow> Context \<Rightarrow> RouteMatch
      \<Rightarrow> panic + bool \<times> Context \<times> RouteMatch"
where
  "Route_Match lib (Route h e ms sub pre bid tts) ctx match =
     (if e \<noteq> None then Inr (False, ctx, match)
      else if h = None then Inr (False, ctx, match)
      else
        (case MessageFromContext (Some ctx) of
           Inl p \<Rightarrow> Inl p
         | Inr ev \<Rightarrow>
             if self_talk_blocked (Route h e ms sub pre bid tts) ev then Inr (False, ctx, match)
             else
               (case run_preprocessor pre ctx of
                  Inl p \<Rightarrow> Inl p
                | Inr ctx1 \<Rightarrow>
                    (case matchers_loop lib ms ctx1 of
                       Inl p \<Rightarrow> Inl p
                     | Inr (matched, ctx2) \<Rightarrow>
                         if \<not> matched then Inr (False, ctx2, match)
                         else
                           (case sub of
                              Some s \<Rightarrow> SimpleRouter_Match lib s ctx2 match
                            | None \<Rightarrow>
                                Inr (True, ctx2,
                                  \<lparr>match_Route = Some (Route h e ms sub pre bid tts),
                                   match_Handler = h\<rparr>))))))"
| "SimpleRouter_Match lib (SimpleRouter rs bid e tts) ctx match =
     (if e \<noteq> None then Inr (False, ctx, match) else routes_loop lib rs ctx match)"
| "routes_loop lib [] ctx match = Inr (False, ctx, match)"
| "routes_loop lib (route # rest) ctx match =
     (case Route_Match lib route ctx match of
        Inl p \<Rightarrow> Inl p
      | Inr (matched, ctx', match') \<Rightarrow>
          if matched then Inr (True, ctx', match') else routes_loop lib rest ctx match')"

section \<open>The builder methods of Route (route.go)\<close>

text \<open>
  A method with a pointer receiver returns the receiver as it is after the call; a method
  that also returns a value returns the pair.
\<close>

fun Route_setBotID :: "Route \<Rightarrow> string \<Rightarrow> Route" where
  "Route_setBotID (Route h e ms sub pre bid tts) botID =
     Route h e (map (\<lambda>matcher. Matcher_SetBotID matcher botID) ms) sub pre botID tts"

fun Route_TalkToSelf :: "Route \<Rightarrow> Route" where
  "Route_TalkToSelf (Route h e ms sub pre bid tts) = Route h e ms sub pre bid True"

fun Route_NoTalkToSelf :: "Route \<Rightarrow> Route" where
  "Route_NoTalkToSelf (Route h e ms sub pre bid tts) = Route h e ms sub pre bid False"

fun Route_AddMatcher :: "Route \<Rightarrow> Matcher \<Rightarrow> Route" where
  "Route_AddMatcher (Route h e ms sub pre bid tts) m = Route h e (ms @ [m]) sub pre bid tts"

fun set_err :: "Route \<Rightarrow> error option \<Rightarrow> Route" where
  "set_err (Route h e ms sub pre bid tts) e' = Route h e' ms sub pre bid tts"

text \<open>
  \<^verbatim>\<open>addRegexpMatcher\<close>: when \<^verbatim>\<open>regexp.Compile\<close> fails it returns a nil \<^verbatim>\<open>*Regexp\<close> with
  the error; the error is stored, and the matcher is added in both cases.
\<close>

definition addRegexpMatcher :: "externals \<Rightarrow> Route \<Rightarrow> string \<Rightarrow> Route" where
  "addRegexpMatcher lib r rx =
     (case regexp_Compile lib rx of
        Inl e \<Rightarrow> Route_AddMatcher (set_err r (Some e)) (RegexpMatcher None [])
      | Inr re \<Rightarrow> Route_AddMatcher r (RegexpMatcher (Some re) []))"

definition Route_Hear :: "externals \<Rightarrow> Route \<Rightarrow> string \<Rightarrow> Route" where
  "Route_Hear lib r rx = addRegexpMatcher lib r rx"

definition addTypesMatcher :: "Route \<Rightarrow> MessageType list \<Rightarrow> Route" where
  "addTypesMatcher r ts = Route_AddMatcher r (TypesMatcher ts (botUserID r))"

definition Route_Messages :: "Route \<Rightarrow> MessageType list \<Rightarrow> Route" where
  "Route_Messages r ts = addTypesMatcher r ts"

fun Route_Handler :: "Route \<Rightarrow> Handler option \<Rightarrow> error option \<times> Route" where
  "Route_Handler (Route h e ms sub pre bid tts) h' =
     (if e \<noteq> None then (e, Route h e ms sub pre bid tts)
      else (None, Route h' e ms sub pre bid tts))"

definition Route_MessageHandler :: "Route \<Rightarrow> nat option \<Rightarrow> error option \<times> Route" where
  "Route_MessageHandler r fn = Route_Handler r (Some (MessageHandlerClosure fn))"

fun Route_Preprocess :: "Route \<Rightarrow> Preprocessor option \<Rightarrow> Route" where
  "Route_Preprocess (Route h e ms sub pre bid tts) fn = Route h e ms sub fn bid tts"

text \<open>
  \<^verbatim>\<open>Subrouter\<close> attaches \<^verbatim>\<open>&SimpleRouter{err: r.err}\<close>; the router it returns is the one
  now stored in the route.
\<close>

fun Route_Subrouter :: "Route \<Rightarrow> Route" where
  "Route_Subrouter (Route h e ms sub pre bid tts) =
     Route h e ms (Some (SimpleRouter [] [] e False)) pre bid tts"

definition Route_Err :: "Route \<Rightarrow> error option" where
  "Route_Err r = err r"

section \<open>The methods of SimpleRouter\<close>

text \<open>
  \<^verbatim>\<open>newRoute\<close> builds \<^verbatim>\<open>&Route{err: r.err, talkToSelf: selftalk}\<close>, appends the pointer to
  \<^verbatim>\<open>r.routes\<close> and returns it. A builder of the router calls the Route method through
  that pointer, so the router ends with the appended route as that method leaves it:
  \<open>new_Route\<close> is the struct literal, \<open>append_route\<close> the append.
\<close>

definition new_Route :: "SimpleRouter \<Rightarrow> bool \<Rightarrow> Route" where
  "new_Route r selftalk = Route None (router_err r) [] None None [] selftalk"

definition append_route :: "SimpleRouter \<Rightarrow> Route \<Rightarrow> SimpleRouter" where
  "append_route r route =
     SimpleRouter (routes r @ [route]) (router_botUserID r) (router_err r) (router_talkToSelf r)"

definition newRoute :: "SimpleRouter \<Rightarrow> bool \<Rightarrow> SimpleRouter" where
  "newRoute r selftalk = append_route r (new_Route r selftalk)"

definition SimpleRouter_Hear :: "externals \<Rightarrow> SimpleRouter \<Rightarrow> string \<Rightarrow> SimpleRouter" where
  "SimpleRouter_Hear lib r rx =
     append_route r (Route_Hear lib (new_Route r (router_talkToSelf r)) rx)"

definition SimpleRouter_Handler :: "SimpleRouter \<Rightarrow> Handler option
    \<Rightarrow> error option \<times> SimpleRouter" where
  "SimpleRouter_Handler r h =
     (case Route_Handler (new_Route r (router_talkToSelf r)) h of
        (e, route) \<Rightarrow> (e, append_route r route))"

definition SimpleRouter_MessageHandler :: "SimpleRouter \<Rightarrow> nat option
    \<Rightarrow> error option \<times> SimpleRouter" where
  "SimpleRouter_MessageHandler r fn =
     (case Route_MessageHandler (new_Route r (router_talkToSelf r)) fn of
        (e, route) \<Rightarrow> (e, append_route r route))"

definition SimpleRouter_Messages :: "SimpleRouter \<Rightarrow> MessageType list \<Rightarrow> SimpleRouter" where
  "SimpleRouter_Messages r ts =
     append_route r (Route_Messages (new_Route r (router_talkToSelf r)) ts)"

definition SimpleRouter_AddMatcher :: "SimpleRouter \<Rightarrow> Matcher \<Rightarrow> SimpleRouter" where
  "SimpleRouter_AddMatcher r m =
     append_route r (Route_AddMatcher (new_Route r (router_talkToSelf r)) m)"

fun SimpleRouter_SetBotID :: "SimpleRouter \<Rightarrow> string \<Rightarrow> SimpleRouter" where
  "SimpleRouter_SetBotID (SimpleRouter rs bid e tts) botID =
     SimpleRouter (map (\<lambda>route. Route_setBotID route botID) rs) botID e tts"

fun SimpleRouter_AlwaysTalkToSelf :: "SimpleRouter \<Rightarrow> SimpleRouter" where
  "SimpleRouter_AlwaysTalkToSelf (SimpleRouter rs bid e tts) = SimpleRouter rs bid e True"

fun SimpleRouter_NeverTalkToSelf :: "SimpleRouter \<Rightarrow> SimpleRouter" where
  "SimpleRouter_NeverTalkToSelf (SimpleRouter rs bid e tts) = SimpleRouter rs bid e False"

definition SimpleRouter_TalkToSelf :: "SimpleRouter \<Rightarrow> SimpleRouter" where
  "SimpleRouter_TalkToSelf r = newRoute r True"

definition SimpleRouter_NoTalkToSelf :: "SimpleRouter \<Rightarrow> SimpleRouter" where
  "SimpleRouter_NoTalkToSelf r = newRoute r False"

definition SimpleRouter_Err :: "SimpleRouter \<Rightarrow> error option" where
  "SimpleRouter_Err r = router_err r"

section \<open>Values for the examples\<close>

text \<open>
  A stand-in for the library in the examples: the pattern \<open>''(''\<close> does not compile, every
  other pattern is a literal that matches the text equal to it; no mention prefix is
  stripped; a direct message has a channel that starts with \<open>D\<close>, a direct mention a text
  that starts with the bot identity in angle brackets.
\<close>

definition example_lib :: externals where
  "example_lib =
     \<lparr>regexp_Compile = (\<lambda>s. if s = ''('' then Inl (Error ''missing closing )'')
                           else Inr (Regexp s)),
      regexp_MatchString = (\<lambda>re s. case re of Regexp p \<Rightarrow> p = s),
      StripDirectMention = (\<lambda>s. s),
      IsDirectMessage = (\<lambda>msg. case msg of None \<Rightarrow> Inl NilPointerDereference
                               | Some ev \<Rightarrow> Inr (take 1 (Channel ev) = ''D'')),
      IsDirectMention = (\<lambda>msg b. case msg of None \<Rightarrow> Inl NilPointerDereference
                               | Some ev \<Rightarrow>
                                   Inr (take (length b + 3) (Text ev) = ''<@'' @ b @ ''>''))\<rparr>"

text \<open>Custom matchers that always and never match, and one that panics.\<close>

definition always_matcher :: Matcher where
  "always_matcher = CustomMatcher (\<lambda>b ctx. Inr (True, ctx)) []"

definition never_matcher :: Matcher where
  "never_matcher = CustomMatcher (\<lambda>b ctx. Inr (False, ctx)) []"

definition panic_matcher :: Matcher where
  "panic_matcher = CustomMatcher (\<lambda>b ctx. Inl (Panic ''boom'')) []"

text \<open>A preprocessor that stores a value under a key of another package.\<close>

definition tag_preprocessor :: Preprocessor where
  "tag_preprocessor = (\<lambda>ctx. Inr (WithValue ctx (foreign_key 0) (other_any 7)))"

definition empty_match :: RouteMatch where
  "empty_match = \<lparr>match_Route = None, match_Handler = None\<rparr>"

text \<open>A message written by user \<open>U1\<close> in a shared channel, and the context that carries it.\<close>

definition ping_event :: MessageEvent where
  "ping_event = \<lparr>Channel = ''C1'', User = ''U1'', Text = ''ping''\<rparr>"

definition ping_ctx :: Context where
  "ping_ctx = WithValue Background message_context_key (MessageEvent_ptr (Some ping_event))"

text \<open>Routes for the examples: a route with only a handler, and a route gated by one matcher.\<close>

definition handler_route :: "nat \<Rightarrow> Route" where
  "handler_route n = Route (Some (HandlerFunc n)) None [] None None [] False"

definition gated_route :: "nat \<Rightarrow> Matcher \<Rightarrow> Route" where
  "gated_route n m = Route (Some (HandlerFunc n)) None [m] None None [] False"

definition router_of :: "Route list \<Rightarrow> SimpleRouter" where
  "router_of rs = SimpleRouter rs [] None False"

text \<open>
  A route with a handler of its own, one matcher that always matches, and a subrouter
  that holds one route with handler 2.
\<close>

definition nested_route :: Route where
  "nested_route =
     Route (Some (HandlerFunc 1)) None [always_matcher] (Some (router_of [handler_route 2]))
       None [] False"

text \<open>
  The same without a handler of its own, as the chain
  \<^verbatim>\<open>router.AddMatcher(m).Subrouter().Handler(h)\<close> leaves the outer route.
\<close>

definition delegating_route :: Route where
  "delegating_route =
     Route None None [always_matcher] (Some (router_of [handler_route 2])) None [] False"

section \<open>The routes of a tree\<close>

text \<open>
  All routes reachable from a route or a router: the route itself, the routes of its
  subrouter, and so on downwards. \<open>written\<close> says how a call of \<^verbatim>\<open>Match\<close> over such a
  tree, started with the record \<open>match\<close> and ended with the result \<open>(b, c, m)\<close>, leaves
  the \<^verbatim>\<open>RouteMatch\<close> record: untouched when it reports no match, and otherwise filled
  by a route of the tree that has a handler and no subrouter and whose own \<^verbatim>\<open>Match\<close>
  returned that result.
\<close>

fun routes_of_Route :: "Route \<Rightarrow> Route list"
  and routes_of_Router :: "SimpleRouter \<Rightarrow> Route list"
  and routes_of_list :: "Route list \<Rightarrow> Route list"
where
  "routes_of_Route (Route h e ms sub pre bid tts) =
     Route h e ms sub pre bid tts # (case sub of None \<Rightarrow> [] | Some s \<Rightarrow> routes_of_Router s)"
| "routes_of_Router (SimpleRouter rs bid e tts) = routes_of_list rs"
| "routes_of_list [] = []"
| "routes_of_list (route # rest) = routes_of_Route route @ routes_of_list rest"

definition written :: "externals \<Rightarrow> Route list \<Rightarrow> RouteMatch \<Rightarrow> bool \<Rightarrow> Context
    \<Rightarrow> RouteMatch \<Rightarrow> bool" where
  "written lib tree match b c m =
     (if b then (\<exists>r0 \<in> set tree. m = \<lparr>match_Route = Some r0, match_Handler = handler r0\<rparr>
                    \<and> handler r0 \<noteq> None \<and> subrouter r0 = None \<and> err r0 = None
                    \<and> (\<exists>c0. Route_Match lib r0 c0 match = Inr (True, c, m)))
      else m = match)"

section \<open>Properties\<close>

subsection \<open>Helper lemmas on the loops\<close>

lemma routes_loop_no_match_ctx:
  "routes_loop lib rs ctx match = Inr (False, ctx', match') \<Longrightarrow> ctx' = ctx"
proof (induction rs arbitrary: match)
  case Nil
  then show ?case by simp
next
  case (Cons route rest)
  then show ?case
    by (auto split: sum.splits prod.splits if_splits)
qed

lemma written_mono:
  assumes "written lib t match b c m" and "set t \<subseteq> set t'"
  shows "written lib t' match b c m"
proof (cases b)
  case True
  with assms(1) obtain r0 where "r0 \<in> set t"
    and "m = \<lparr>match_Route = Some r0, match_Handler = handler r0\<rparr>
      \<and> handler r0 \<noteq> None \<and> subrouter r0 = None \<and> err r0 = None
      \<and> (\<exists>c0. Route_Match lib r0 c0 match = Inr (True, c, m))"
    unfolding written_def by auto
  with assms(2) True show ?thesis
    unfolding written_def by auto
next
  case False
  with assms(1) show ?thesis by (simp add: written_def)
qed

lemma routes_loop_written:
  assumes "\<And>route ctx match b c m. route \<in> set rs \<Longrightarrow>
      Route_Match lib route ctx match = Inr (b, c, m) \<Longrightarrow>
      written lib (routes_of_Route route) match b c m"
  shows "routes_loop lib rs ctx match = Inr (b, c, m)
    \<Longrightarrow> written lib (routes_of_list rs) match b c m"
  using assms
proof (induction rs arbitrary: match)
  case Nil
  then show ?case by (simp add: written_def)
next
  case (Cons route rest)
  show ?case
  proof (cases "Route_Match lib route ctx match")
    case (Inl p)
    with Cons.prems(1) show ?thesis by simp
  next
    case (Inr res)
    obtain b1 c1 m1 where res: "res = (b1, c1, m1)" by (cases res) auto
    have w1: "written lib (routes_of_Route route) match b1 c1 m1"
      using Cons.prems(2) [of route ctx match b1 c1 m1] Inr res by simp
    show ?thesis
    proof (cases b1)
      case True
      with Inr res Cons.prems(1) have "b = True" "c = c1" "m = m1" by simp_all
      with w1 True show ?thesis by (auto intro: written_mono)
    next
      case False
      with w1 have m1: "m1 = match" by (simp add: written_def)
      from False Inr res Cons.prems(1) m1
      have "routes_loop lib rest ctx match = Inr (b, c, m)" by simp
      then have "written lib (routes_of_list rest) match b c m"
        using Cons.IH [of match] Cons.prems(2) by simp
      then show ?thesis by (auto intro: written_mono)
    qed
  qed
qed

lemma Match_written:
  "(\<forall>ctx match b c m. Route_Match lib route ctx match = Inr (b, c, m) \<longrightarrow>
      written lib (routes_of_Route route) match b c m)"
  "(\<forall>ctx match b c m. SimpleRouter_Match lib r ctx match = Inr (b, c, m) \<longrightarrow>
      written lib (routes_of_Router r) match b c m)"
proof (induction route and r)
  case (Route h e ms sub pre bid tts)
  show ?case
  proof (intro allI impI)
    fix ctx match b c m
    assume eq: "Route_Match lib (Route h e ms sub pre bid tts) ctx match = Inr (b, c, m)"
    show "written lib (routes_of_Route (Route h e ms sub pre bid tts)) match b c m"
    proof (cases sub)
      case None
      show ?thesis
      proof (cases b)
        case True
        from eq None True
        have m: "m = \<lparr>match_Route = Some (Route h e ms sub pre bid tts), match_Handler = h\<rparr>"
          and h: "h \<noteq> None" and e: "e = None"
          by (auto split: sum.splits prod.splits if_splits)
        from eq True
        have "Route_Match lib (Route h e ms sub pre bid tts) ctx match = Inr (True, c, m)"
          by simp
        then have "\<exists>c0. Route_Match lib (Route h e ms sub pre bid tts) c0 match
            = Inr (True, c, m)"
          by (rule exI)
        with m h e None True show ?thesis
          by (simp add: written_def)
      next
        case False
        with eq None show ?thesis
          by (auto simp: written_def split: sum.splits prod.splits if_splits)
      qed
    next
      case (Some s)
      have IH: "\<And>ctx match b c m. SimpleRouter_Match lib s ctx match = Inr (b, c, m) \<Longrightarrow>
          written lib (routes_of_Router s) match b c m"
        using Route.IH [of s] Some by simp
      show ?thesis
      proof (cases b)
        case True
        with eq Some obtain c2 where "SimpleRouter_Match lib s c2 match = Inr (True, c, m)"
          by (auto split: sum.splits prod.splits if_splits)
        then have "written lib (routes_of_Router s) match True c m" by (rule IH)
        with True Some show ?thesis by (auto intro: written_mono)
      next
        case False
        with eq Some have "m = match \<or> (\<exists>c2. SimpleRouter_Match lib s c2 match
            = Inr (False, c, m))"
          by (auto split: sum.splits prod.splits if_splits)
        with False show ?thesis by (auto simp: written_def dest!: IH)
      qed
    qed
  qed
next
  case (SimpleRouter rs bid e tts)
  show ?case
  proof (intro allI impI)
    fix ctx match b c m
    assume eq: "SimpleRouter_Match lib (SimpleRouter rs bid e tts) ctx match = Inr (b, c, m)"
    show "written lib (routes_of_Router (SimpleRouter rs bid e tts)) match b c m"
    proof (cases "e = None")
      case True
      with eq have "routes_loop lib rs ctx match = Inr (b, c, m)" by simp
      then have "written lib (routes_of_list rs) match b c m"
        using routes_loop_written [of rs lib] SimpleRouter.IH by blast
      then show ?thesis by simp
    next
      case False
      with eq show ?thesis by (auto simp: written_def)
    qed
  qed
qed

lemma Route_Match_no_match_frame:
  "Route_Match lib route ctx match = Inr (False, c, m) \<Longrightarrow> m = match"
  using Match_written(1) [of lib route] by (auto simp: written_def)

lemma SimpleRouter_Match_no_match_frame:
  "SimpleRouter_Match lib r ctx match = Inr (False, c, m) \<Longrightarrow> m = match"
  using Match_written(2) [of lib r] by (auto simp: written_def)

lemma MessageFromContext_ping_ctx:
  "MessageFromContext (Some ping_ctx) = Inr (Some ping_event)"
  by (simp add: MessageFromContext_def ping_ctx_def)

lemma routes_loop_first_match:
  assumes "Route_Match lib r1 ctx match = Inr (True, c1, m1)"
  shows "routes_loop lib (pre @ r1 # rest) ctx match = routes_loop lib (pre @ [r1]) ctx match"
proof (induction pre)
  case Nil
  with assms show ?case by simp
next
  case (Cons route pre)
  show ?case
  proof (cases "Route_Match lib route ctx match")
    case (Inl p)
    then show ?thesis by simp
  next
    case (Inr res)
    obtain b c m where res: "res = (b, c, m)" by (cases res) auto
    show ?thesis
    proof (cases b)
      case True
      with Inr res show ?thesis by simp
    next
      case False
      with Inr res have "m = match" by (auto dest: Route_Match_no_match_frame)
      with False Inr res Cons.IH show ?thesis by simp
    qed
  qed
qed

lemma routes_loop_skip:
  assumes "\<forall>route \<in> set pre. \<exists>c m. Route_Match lib route ctx match = Inr (False, c, m)"
  shows "routes_loop lib (pre @ rest) ctx match = routes_loop lib rest ctx match"
  using assms
proof (induction pre)
  case Nil
  then show ?case by simp
next
  case (Cons route pre)
  then obtain c m where r: "Route_Match lib route ctx match = Inr (False, c, m)" by auto
  then have "m = match" by (rule Route_Match_no_match_frame)
  with r Cons show ?case by simp
qed

subsection \<open>Context accessors\<close>

text \<open>
  C9 as stated fails for the nil context: the from-context accessors call
  \<^verbatim>\<open>ctx.Value\<close> with no nil check and panic on it, and the add-to-context accessors
  panic in \<^verbatim>\<open>context.WithValue\<close>.
\<close>

theorem accessors_panic_on_nil_context_counterexample:
  "BotFromContext None = Inl NilPointerDereference
   \<and> MessageFromContext None = Inl NilPointerDereference
   \<and> AddBotToContext None (Some (Bot_ref 1))
     = Inl (Panic ''cannot create context from nil parent'')
   \<and> AddMessageToContext None (Some ping_event)
     = Inl (Panic ''cannot create context from nil parent'')"
  by (simp add: BotFromContext_def MessageFromContext_def AddBotToContext_def
      AddMessageToContext_def)

text \<open>
  C9, amended. For every context of the \<^verbatim>\<open>context\<close> package that is not nil: storing
  a bot or message-event reference (a nil pointer included) with the add-to-context
  accessor returns a context from which the matching from-context accessor returns the
  same reference, and the other kind of reference is read from it as before. The
  from-context accessors return on every such context, and return nil when nothing is
  stored under their key.
\<close>

theorem context_round_trip:
  "(\<exists>c'. AddBotToContext (Some ctx) b = Inr c'
        \<and> BotFromContext (Some c') = Inr b
        \<and> MessageFromContext (Some c') = MessageFromContext (Some ctx))
   \<and> (\<exists>c'. AddMessageToContext (Some ctx) msg = Inr c'
        \<and> MessageFromContext (Some c') = Inr msg
        \<and> BotFromContext (Some c') = BotFromContext (Some ctx))
   \<and> (\<exists>p. BotFromContext (Some ctx) = Inr p)
   \<and> (\<exists>p. MessageFromContext (Some ctx) = Inr p)
   \<and> (Value ctx bot_context_key = nil_any \<longrightarrow> BotFromContext (Some ctx) = Inr None)
   \<and> (Value ctx message_context_key = nil_any \<longrightarrow> MessageFromContext (Some ctx) = Inr None)
   \<and> BotFromContext (Some Background) = Inr None
   \<and> MessageFromContext (Some Background) = Inr None"
  by (simp add: BotFromContext_def AddBotToContext_def MessageFromContext_def
      AddMessageToContext_def split: any.splits)

theorem context_round_trip_witness:
  "AddBotToContext (Some ping_ctx) (Some (Bot_ref 1))
     = Inr (WithValue ping_ctx bot_context_key (Bot_ptr (Some (Bot_ref 1))))
   \<and> BotFromContext (Some (WithValue ping_ctx bot_context_key (Bot_ptr (Some (Bot_ref 1)))))
     = Inr (Some (Bot_ref 1))
   \<and> MessageFromContext (Some (WithValue ping_ctx bot_context_key (Bot_ptr (Some (Bot_ref 1)))))
     = Inr (Some ping_event)
   \<and> AddMessageToContext (Some Background) (Some ping_event) = Inr ping_ctx
   \<and> MessageFromContext (Some ping_ctx) = Inr (Some ping_event)
   \<and> Value ping_ctx bot_context_key = nil_any
   \<and> BotFromContext (Some ping_ctx) = Inr None
   \<and> Value (WithValue Background (foreign_key 0) (other_any 7)) message_context_key = nil_any
   \<and> MessageFromContext (Some (WithValue Background (foreign_key 0) (other_any 7)))
     = Inr None"
  using context_round_trip [of ping_ctx "Some (Bot_ref 1)" "Some ping_event"]
    context_round_trip [of Background None "Some ping_event"]
    context_round_trip [of "WithValue Background (foreign_key 0) (other_any 7)" None None]
  by (simp add: ping_ctx_def AddMessageToContext_def AddBotToContext_def)

subsection \<open>Matching\<close>

text \<open>
  C4. A router whose build error is set, and a route whose build error is set, report
  no match on every context, whatever routes and matchers they hold; the context and
  the \<^verbatim>\<open>RouteMatch\<close> record come back as they went in.
\<close>

theorem build_error_fails_closed:
  "(router_err r \<noteq> None \<longrightarrow> SimpleRouter_Match lib r ctx match = Inr (False, ctx, match))
   \<and> (err route \<noteq> None \<longrightarrow> Route_Match lib route ctx match = Inr (False, ctx, match))"
  by (cases r; cases route) simp

theorem build_error_fails_closed_witness:
  "Route_Match example_lib (handler_route 1) ping_ctx empty_match
     = Inr (True, ping_ctx, \<lparr>match_Route = Some (handler_route 1),
                             match_Handler = Some (HandlerFunc 1)\<rparr>)
   \<and> router_err (SimpleRouter [handler_route 1] [] (Some (Error ''bad'')) False) \<noteq> None
   \<and> SimpleRouter_Match example_lib
        (SimpleRouter [handler_route 1] [] (Some (Error ''bad'')) False) ping_ctx empty_match
     = Inr (False, ping_ctx, empty_match)
   \<and> err (set_err (handler_route 1) (Some (Error ''bad''))) \<noteq> None
   \<and> Route_Match example_lib (set_err (handler_route 1) (Some (Error ''bad''))) ping_ctx
        empty_match
     = Inr (False, ping_ctx, empty_match)"
  using build_error_fails_closed
    [of "SimpleRouter [handler_route 1] [] (Some (Error ''bad'')) False"
        example_lib ping_ctx empty_match "set_err (handler_route 1) (Some (Error ''bad''))"]
  by (simp add: handler_route_def self_talk_blocked_def run_preprocessor_def ping_ctx_def
      AddMessageToContext_def MessageFromContext_def ping_event_def)

text \<open>
  C7. Whenever \<^verbatim>\<open>SimpleRouter.Match\<close> returns \<open>matched = false\<close>, the context it
  returns is the input context, also when routes changed their own copy before they
  failed; a router with a build error or with no routes returns that at once.
\<close>

theorem no_match_returns_input_context:
  "(SimpleRouter_Match lib r ctx match = Inr (False, ctx', match') \<longrightarrow> ctx' = ctx)
   \<and> (router_err r \<noteq> None \<or> routes r = []
        \<longrightarrow> SimpleRouter_Match lib r ctx match = Inr (False, ctx, match))"
  by (cases r) (auto dest: routes_loop_no_match_ctx split: if_splits)

theorem no_match_returns_input_context_witness:
  "Route_Match example_lib
       (Route_Preprocess (gated_route 1 never_matcher) (Some tag_preprocessor))
       ping_ctx empty_match
     = Inr (False, WithValue ping_ctx (foreign_key 0) (other_any 7), empty_match)
   \<and> SimpleRouter_Match example_lib
       (router_of [Route_Preprocess (gated_route 1 never_matcher) (Some tag_preprocessor)])
       ping_ctx empty_match
     = Inr (False, ping_ctx, empty_match)
   \<and> routes (router_of []) = []
   \<and> SimpleRouter_Match example_lib (router_of []) ping_ctx empty_match
     = Inr (False, ping_ctx, empty_match)"
  using no_match_returns_input_context
    [of example_lib
        "router_of [Route_Preprocess (gated_route 1 never_matcher) (Some tag_preprocessor)]"
        ping_ctx empty_match ping_ctx empty_match]
    no_match_returns_input_context
    [of example_lib "router_of []" ping_ctx empty_match ping_ctx empty_match]
  by (simp add: router_of_def gated_route_def never_matcher_def tag_preprocessor_def
      self_talk_blocked_def run_preprocessor_def ping_ctx_def
      AddMessageToContext_def MessageFromContext_def ping_event_def)


text \<open>
  C10. \<^verbatim>\<open>Match\<close> of a router and of a route writes the \<^verbatim>\<open>RouteMatch\<close> record only on
  a match: with \<open>matched = false\<close> the record is as it was before the call; with
  \<open>matched = true\<close> both fields are set by the innermost route that matched: a route of
  the tree that has no subrouter and whose own \<^verbatim>\<open>Match\<close>, called with the record as it
  was before the call, returned the very result (matched, the same context, the same
  record); the record holds that route and its handler, which is not nil.
\<close>

theorem RouteMatch_written_only_on_match:
  "(SimpleRouter_Match lib r ctx match = Inr (False, ctx', match') \<longrightarrow> match' = match)
   \<and> (Route_Match lib route ctx match = Inr (False, ctx', match') \<longrightarrow> match' = match)
   \<and> (SimpleRouter_Match lib r ctx match = Inr (True, ctx', match') \<longrightarrow>
        (\<exists>r0 \<in> set (routes_of_Router r).
           match_Route match' = Some r0 \<and> match_Handler match' = handler r0
           \<and> handler r0 \<noteq> None \<and> subrouter r0 = None
           \<and> (\<exists>c0. Route_Match lib r0 c0 match = Inr (True, ctx', match'))))
   \<and> (Route_Match lib route ctx match = Inr (True, ctx', match') \<longrightarrow>
        (\<exists>r0 \<in> set (routes_of_Route route).
           match_Route match' = Some r0 \<and> match_Handler match' = handler r0
           \<and> handler r0 \<noteq> None \<and> subrouter r0 = None
           \<and> (\<exists>c0. Route_Match lib r0 c0 match = Inr (True, ctx', match'))))"
proof (intro conjI impI)
  assume "SimpleRouter_Match lib r ctx match = Inr (False, ctx', match')"
  then show "match' = match" by (rule SimpleRouter_Match_no_match_frame)
next
  assume "Route_Match lib route ctx match = Inr (False, ctx', match')"
  then show "match' = match" by (rule Route_Match_no_match_frame)
next
  assume "SimpleRouter_Match lib r ctx match = Inr (True, ctx', match')"
  then have "written lib (routes_of_Router r) match True ctx' match'"
    using Match_written(2) [of lib r] by blast
  then obtain r0 where "r0 \<in> set (routes_of_Router r)"
    and "match' = \<lparr>match_Route = Some r0, match_Handler = handler r0\<rparr>"
    and "handler r0 \<noteq> None" and "subrouter r0 = None"
    and "\<exists>c0. Route_Match lib r0 c0 match = Inr (True, ctx', match')"
    unfolding written_def by auto
  then show "\<exists>r0 \<in> set (routes_of_Router r).
      match_Route match' = Some r0 \<and> match_Handler match' = handler r0
      \<and> handler r0 \<noteq> None \<and> subrouter r0 = None
      \<and> (\<exists>c0. Route_Match lib r0 c0 match = Inr (True, ctx', match'))"
    by (intro bexI [of _ r0]) simp_all
next
  assume "Route_Match lib route ctx match = Inr (True, ctx', match')"
  then have "written lib (routes_of_Route route) match True ctx' match'"
    using Match_written(1) [of lib route] by blast
  then obtain r0 where "r0 \<in> set (routes_of_Route route)"
    and "match' = \<lparr>match_Route = Some r0, match_Handler = handler r0\<rparr>"
    and "handler r0 \<noteq> None" and "subrouter r0 = None"
    and "\<exists>c0. Route_Match lib r0 c0 match = Inr (True, ctx', match')"
    unfolding written_def by auto
  then show "\<exists>r0 \<in> set (routes_of_Route route).
      match_Route match' = Some r0 \<and> match_Handler match' = handler r0
      \<and> handler r0 \<noteq> None \<and> subrouter r0 = None
      \<and> (\<exists>c0. Route_Match lib r0 c0 match = Inr (True, ctx', match'))"
    by (intro bexI [of _ r0]) simp_all
qed

theorem RouteMatch_written_only_on_match_witness:
  "SimpleRouter_Match example_lib (router_of [gated_route 3 never_matcher]) ping_ctx
       \<lparr>match_Route = None, match_Handler = Some (HandlerFunc 9)\<rparr>
     = Inr (False, ping_ctx, \<lparr>match_Route = None, match_Handler = Some (HandlerFunc 9)\<rparr>)
   \<and> Route_Match example_lib (gated_route 3 never_matcher) ping_ctx
       \<lparr>match_Route = None, match_Handler = Some (HandlerFunc 9)\<rparr>
     = Inr (False, ping_ctx, \<lparr>match_Route = None, match_Handler = Some (HandlerFunc 9)\<rparr>)
   \<and> SimpleRouter_Match example_lib (router_of [gated_route 3 never_matcher, nested_route])
       ping_ctx empty_match
     = Inr (True, ping_ctx, \<lparr>match_Route = Some (handler_route 2),
                             match_Handler = Some (HandlerFunc 2)\<rparr>)
   \<and> Route_Match example_lib nested_route ping_ctx empty_match
     = Inr (True, ping_ctx, \<lparr>match_Route = Some (handler_route 2),
                             match_Handler = Some (HandlerFunc 2)\<rparr>)
   \<and> handler_route 2 \<in> set (routes_of_Route nested_route)
   \<and> subrouter (handler_route 2) = None
   \<and> Route_Match example_lib (handler_route 2) ping_ctx empty_match
     = Inr (True, ping_ctx, \<lparr>match_Route = Some (handler_route 2),
                             match_Handler = Some (HandlerFunc 2)\<rparr>)"
  using RouteMatch_written_only_on_match
    [of example_lib "router_of [gated_route 3 never_matcher]" ping_ctx
        "\<lparr>match_Route = None, match_Handler = Some (HandlerFunc 9)\<rparr>" ping_ctx
        "\<lparr>match_Route = None, match_Handler = Some (HandlerFunc 9)\<rparr>"
        "gated_route 3 never_matcher"]
    RouteMatch_written_only_on_match
    [of example_lib "router_of [gated_route 3 never_matcher, nested_route]" ping_ctx
        empty_match ping_ctx
        "\<lparr>match_Route = Some (handler_route 2), match_Handler = Some (HandlerFunc 2)\<rparr>"
        nested_route]
  by (simp add: router_of_def gated_route_def handler_route_def nested_route_def
      never_matcher_def always_matcher_def empty_match_def
      self_talk_blocked_def run_preprocessor_def MessageFromContext_ping_ctx ping_event_def)

text \<open>
  C5. Let a router without build error hold a route \<open>r1\<close> that matches the context
  and, after it, a route \<open>r2\<close> (which may match as well). Then \<^verbatim>\<open>Match\<close> returns what
  the routes up to and including \<open>r1\<close> give: \<open>r2\<close> and every other route after \<open>r1\<close>
  are never consulted. When no route before \<open>r1\<close> matches, the result is \<open>r1\<close>'s own:
  matched, with \<open>r1\<close>'s context and the \<^verbatim>\<open>RouteMatch\<close> record as \<open>r1\<close> filled it.
\<close>

theorem first_match_wins:
  assumes "router_err r = None"
    and "routes r = pre @ r1 # mid @ r2 # post"
    and "Route_Match lib r1 ctx match = Inr (True, c1, m1)"
  shows "SimpleRouter_Match lib r ctx match = routes_loop lib (pre @ [r1]) ctx match
    \<and> ((\<forall>route \<in> set pre. \<exists>c m. Route_Match lib route ctx match = Inr (False, c, m))
         \<longrightarrow> SimpleRouter_Match lib r ctx match = Inr (True, c1, m1))"
proof -
  obtain rs bid e tts where r: "r = SimpleRouter rs bid e tts" by (cases r)
  with assms(1,2) have e: "e = None" and rs: "rs = pre @ r1 # mid @ r2 # post" by simp_all
  have first: "SimpleRouter_Match lib r ctx match = routes_loop lib (pre @ [r1]) ctx match"
    using r e rs routes_loop_first_match [OF assms(3), of pre "mid @ r2 # post"] by simp
  have "routes_loop lib (pre @ [r1]) ctx match = Inr (True, c1, m1)"
    if "\<forall>route \<in> set pre. \<exists>c m. Route_Match lib route ctx match = Inr (False, c, m)"
    using routes_loop_skip [OF that, of "[r1]"] assms(3) by simp
  with first show ?thesis by simp
qed

theorem first_match_wins_witness:
  "Route_Match example_lib (gated_route 1 always_matcher) ping_ctx empty_match
     = Inr (True, ping_ctx, \<lparr>match_Route = Some (gated_route 1 always_matcher),
                             match_Handler = Some (HandlerFunc 1)\<rparr>)
   \<and> Route_Match example_lib (handler_route 2) ping_ctx empty_match
     = Inr (True, ping_ctx, \<lparr>match_Route = Some (handler_route 2),
                             match_Handler = Some (HandlerFunc 2)\<rparr>)
   \<and> Route_Match example_lib (gated_route 3 never_matcher) ping_ctx empty_match
     = Inr (False, ping_ctx, empty_match)
   \<and> SimpleRouter_Match example_lib
        (router_of [gated_route 3 never_matcher, gated_route 1 always_matcher,
                    gated_route 4 panic_matcher, handler_route 2])
        ping_ctx empty_match
     = Inr (True, ping_ctx, \<lparr>match_Route = Some (gated_route 1 always_matcher),
                             match_Handler = Some (HandlerFunc 1)\<rparr>)"
proof -
  have r1: "Route_Match example_lib (gated_route 1 always_matcher) ping_ctx empty_match
     = Inr (True, ping_ctx, \<lparr>match_Route = Some (gated_route 1 always_matcher),
                             match_Handler = Some (HandlerFunc 1)\<rparr>)"
    by (simp add: gated_route_def always_matcher_def self_talk_blocked_def
        run_preprocessor_def ping_ctx_def AddMessageToContext_def MessageFromContext_def
        ping_event_def)
  have r2: "Route_Match example_lib (handler_route 2) ping_ctx empty_match
     = Inr (True, ping_ctx, \<lparr>match_Route = Some (handler_route 2),
                             match_Handler = Some (HandlerFunc 2)\<rparr>)"
    by (simp add: handler_route_def self_talk_blocked_def
        run_preprocessor_def ping_ctx_def AddMessageToContext_def MessageFromContext_def
        ping_event_def)
  have r3: "Route_Match example_lib (gated_route 3 never_matcher) ping_ctx empty_match
     = Inr (False, ping_ctx, empty_match)"
    by (simp add: gated_route_def never_matcher_def self_talk_blocked_def
        run_preprocessor_def ping_ctx_def AddMessageToContext_def MessageFromContext_def
        ping_event_def)
  have e: "router_err (router_of [gated_route 3 never_matcher, gated_route 1 always_matcher,
                    gated_route 4 panic_matcher, handler_route 2]) = None"
    by (simp add: router_of_def)
  have rs: "routes (router_of [gated_route 3 never_matcher, gated_route 1 always_matcher,
                    gated_route 4 panic_matcher, handler_route 2])
      = [gated_route 3 never_matcher] @ gated_route 1 always_matcher
          # [gated_route 4 panic_matcher] @ handler_route 2 # []"
    by (simp add: router_of_def)
  have pre: "\<forall>route \<in> set [gated_route 3 never_matcher].
      \<exists>c m. Route_Match example_lib route ping_ctx empty_match = Inr (False, c, m)"
    using r3 by simp
  from first_match_wins [OF e rs r1] pre r1 r2 r3 show ?thesis by blast
qed

text \<open>
  C6. For a route with self-talk disabled and a context whose message was written by the
  route's bot identity, \<^verbatim>\<open>Route.Match\<close> returns no match with the input context and
  the untouched record, whatever the preprocessor and the matchers are (also ones that
  would panic or change the context): neither is run. With self-talk enabled on the same
  route, the same context goes on to the preprocessor and the matchers, and matches when
  they pass (through the subrouter, when there is one).
\<close>

theorem self_talk_filter_comes_first:
  assumes "MessageFromContext (Some ctx) = Inr (Some ev)"
    and "User ev = botUserID r"
  shows "Route_Match lib (Route_NoTalkToSelf r) ctx match = Inr (False, ctx, match)
    \<and> (\<not> talkToSelf r \<longrightarrow> Route_Match lib r ctx match = Inr (False, ctx, match))
    \<and> (err r = None \<and> handler r \<noteq> None
         \<and> run_preprocessor (preprocessor r) ctx = Inr c1
         \<and> matchers_loop lib (matchers r) c1 = Inr (True, c2)
       \<longrightarrow> Route_Match lib (Route_TalkToSelf r) ctx match =
            (case subrouter r of
               None \<Rightarrow> Inr (True, c2, \<lparr>match_Route = Some (Route_TalkToSelf r),
                                        match_Handler = handler r\<rparr>)
             | Some s \<Rightarrow> SimpleRouter_Match lib s c2 match))"
  using assms
  by (cases r) (auto simp: self_talk_blocked_def split: option.splits)

theorem self_talk_filter_comes_first_witness:
  "MessageFromContext (Some ping_ctx) = Inr (Some ping_event)
   \<and> User ping_event = botUserID (Route_setBotID (gated_route 1 always_matcher) ''U1'')
   \<and> Route_Match example_lib
        (Route_NoTalkToSelf (Route_setBotID (gated_route 1 always_matcher) ''U1''))
        ping_ctx empty_match
     = Inr (False, ping_ctx, empty_match)
   \<and> Route_Match example_lib
        (Route_TalkToSelf (Route_setBotID (gated_route 1 always_matcher) ''U1''))
        ping_ctx empty_match
     = Inr (True, ping_ctx,
            \<lparr>match_Route =
               Some (Route_TalkToSelf (Route_setBotID (gated_route 1 always_matcher) ''U1'')),
             match_Handler = Some (HandlerFunc 1)\<rparr>)
   \<and> Route_Match example_lib
        (Route_NoTalkToSelf (Route_setBotID (gated_route 1 panic_matcher) ''U1''))
        ping_ctx empty_match
     = Inr (False, ping_ctx, empty_match)
   \<and> Route_Match example_lib
        (Route_TalkToSelf (Route_setBotID (gated_route 1 panic_matcher) ''U1''))
        ping_ctx empty_match
     = Inl (Panic ''boom'')"
proof -
  have ev: "MessageFromContext (Some ping_ctx) = Inr (Some ping_event)"
    by (rule MessageFromContext_ping_ctx)
  have u: "User ping_event = botUserID (Route_setBotID (gated_route 1 always_matcher) ''U1'')"
    by (simp add: ping_event_def gated_route_def)
  have u': "User ping_event = botUserID (Route_setBotID (gated_route 1 panic_matcher) ''U1'')"
    by (simp add: ping_event_def gated_route_def)
  have m: "err (Route_setBotID (gated_route 1 always_matcher) ''U1'') = None
      \<and> handler (Route_setBotID (gated_route 1 always_matcher) ''U1'') \<noteq> None
      \<and> run_preprocessor (preprocessor (Route_setBotID (gated_route 1 always_matcher) ''U1''))
          ping_ctx = Inr ping_ctx
      \<and> matchers_loop example_lib
          (matchers (Route_setBotID (gated_route 1 always_matcher) ''U1'')) ping_ctx
          = Inr (True, ping_ctx)"
    by (simp add: gated_route_def always_matcher_def run_preprocessor_def)
  have p: "Route_Match example_lib
        (Route_TalkToSelf (Route_setBotID (gated_route 1 panic_matcher) ''U1''))
        ping_ctx empty_match = Inl (Panic ''boom'')"
    by (simp add: gated_route_def panic_matcher_def run_preprocessor_def
        self_talk_blocked_def ev)
  from self_talk_filter_comes_first [OF ev u, of example_lib empty_match ping_ctx ping_ctx]
    self_talk_filter_comes_first [OF ev u', of example_lib empty_match ping_ctx ping_ctx]
    ev u m p
  show ?thesis by (simp add: gated_route_def)
qed

text \<open>
  C1 as stated fails: a route whose matchers pass and whose subrouter matches does not
  match when it has no handler of its own, because \<^verbatim>\<open>Route.Match\<close> returns no match
  for a nil handler before it looks at anything else.
\<close>

theorem delegation_needs_own_handler_counterexample:
  "Route_Subrouter (Route_AddMatcher (new_Route (router_of []) False) always_matcher)
     = Route None None [always_matcher] (Some (router_of [])) None [] False
   \<and> snd (SimpleRouter_Handler (router_of []) (Some (HandlerFunc 2)))
     = router_of [handler_route 2]
   \<and> matchers delegating_route \<noteq> []
   \<and> subrouter delegating_route = Some (router_of [handler_route 2])
   \<and> handler delegating_route = None
   \<and> matchers_loop example_lib (matchers delegating_route) ping_ctx = Inr (True, ping_ctx)
   \<and> SimpleRouter_Match example_lib (router_of [handler_route 2]) ping_ctx empty_match
     = Inr (True, ping_ctx, \<lparr>match_Route = Some (handler_route 2),
                             match_Handler = Some (HandlerFunc 2)\<rparr>)
   \<and> Route_Match example_lib delegating_route ping_ctx empty_match
     = Inr (False, ping_ctx, empty_match)"
  by (simp add: delegating_route_def router_of_def handler_route_def always_matcher_def
      new_Route_def SimpleRouter_Handler_def append_route_def
      self_talk_blocked_def run_preprocessor_def ping_ctx_def AddMessageToContext_def
      MessageFromContext_def ping_event_def)

text \<open>
  C1, amended. A route with a subrouter matches exactly when it has no build error, has a
  handler of its own, is not stopped by the self-talk filter, its preprocessor and all
  its own matchers pass, and the subrouter's \<^verbatim>\<open>Match\<close>, on the context the matchers
  leave, reports a match. The returned context and the \<^verbatim>\<open>RouteMatch\<close> record are then
  the subrouter's: the handler stored is the one the subrouter matched, not the outer
  route's. A route without a handler of its own never matches, with or without a
  subrouter.
\<close>

theorem subrouter_delegation:
  assumes "subrouter r = Some s"
  shows "(Route_Match lib r ctx match = Inr (True, ctx', match') \<longleftrightarrow>
           err r = None \<and> handler r \<noteq> None
           \<and> (\<exists>ev. MessageFromContext (Some ctx) = Inr ev \<and> \<not> self_talk_blocked r ev)
           \<and> (\<exists>c1 c2. run_preprocessor (preprocessor r) ctx = Inr c1
                 \<and> matchers_loop lib (matchers r) c1 = Inr (True, c2)
                 \<and> SimpleRouter_Match lib s c2 match = Inr (True, ctx', match')))
    \<and> (handler r = None \<longrightarrow> Route_Match lib r ctx match = Inr (False, ctx, match))"
  using assms
  by (cases r) (auto split: sum.splits prod.splits)

theorem subrouter_delegation_witness:
  "subrouter nested_route = Some (router_of [handler_route 2])
   \<and> handler nested_route = Some (HandlerFunc 1)
   \<and> SimpleRouter_Match example_lib (router_of [handler_route 2]) ping_ctx empty_match
     = Inr (True, ping_ctx, \<lparr>match_Route = Some (handler_route 2),
                             match_Handler = Some (HandlerFunc 2)\<rparr>)
   \<and> Route_Match example_lib nested_route ping_ctx empty_match
     = Inr (True, ping_ctx, \<lparr>match_Route = Some (handler_route 2),
                             match_Handler = Some (HandlerFunc 2)\<rparr>)
   \<and> subrouter delegating_route = Some (router_of [handler_route 2])
   \<and> handler delegating_route = None
   \<and> Route_Match example_lib delegating_route ping_ctx empty_match
     = Inr (False, ping_ctx, empty_match)"
proof -
  have s1: "subrouter nested_route = Some (router_of [handler_route 2])"
    by (simp add: nested_route_def)
  have s2: "subrouter delegating_route = Some (router_of [handler_route 2])"
    by (simp add: delegating_route_def)
  have ev: "MessageFromContext (Some ping_ctx) = Inr (Some ping_event)"
    by (rule MessageFromContext_ping_ctx)
  have sub: "SimpleRouter_Match example_lib (router_of [handler_route 2]) ping_ctx empty_match
     = Inr (True, ping_ctx, \<lparr>match_Route = Some (handler_route 2),
                             match_Handler = Some (HandlerFunc 2)\<rparr>)"
    by (simp add: router_of_def handler_route_def self_talk_blocked_def
        run_preprocessor_def ev ping_event_def)
  have own: "err nested_route = None \<and> handler nested_route = Some (HandlerFunc 1)
      \<and> MessageFromContext (Some ping_ctx) = Inr (Some ping_event)
      \<and> \<not> self_talk_blocked nested_route (Some ping_event)
      \<and> run_preprocessor (preprocessor nested_route) ping_ctx = Inr ping_ctx
      \<and> matchers_loop example_lib (matchers nested_route) ping_ctx = Inr (True, ping_ctx)"
    by (simp add: nested_route_def always_matcher_def self_talk_blocked_def
        run_preprocessor_def ev ping_event_def)
  have h: "handler delegating_route = None"
    by (simp add: delegating_route_def)
  from subrouter_delegation [OF s1, of example_lib ping_ctx empty_match ping_ctx
      "\<lparr>match_Route = Some (handler_route 2), match_Handler = Some (HandlerFunc 2)\<rparr>"]
    subrouter_delegation [OF s2, of example_lib ping_ctx empty_match ping_ctx empty_match]
    s1 s2 sub own h
  show ?thesis by auto
qed

subsection \<open>Builders\<close>

text \<open>
  C2 as stated fails: \<^verbatim>\<open>Hear\<close> with a pattern that does not compile stores the error
  and still appends a matcher (with a nil regex), and a builder called after the error
  is set still makes its change.
\<close>

theorem Hear_appends_on_compile_error_counterexample:
  "regexp_Compile example_lib ''('' = Inl (Error ''missing closing )'')
   \<and> Route_Hear example_lib (new_Route (router_of []) False) ''(''
     = Route None (Some (Error ''missing closing )'')) [RegexpMatcher None []] None None []
         False
   \<and> Route_Messages (Route_Hear example_lib (new_Route (router_of []) False) ''('')
       [DirectMessage]
     = Route None (Some (Error ''missing closing )''))
         [RegexpMatcher None [], TypesMatcher [DirectMessage] []] None None [] False"
  by (simp add: example_lib_def Route_Hear_def addRegexpMatcher_def new_Route_def
      router_of_def Route_Messages_def addTypesMatcher_def)

text \<open>
  C2, amended. Only \<^verbatim>\<open>Handler\<close> and \<^verbatim>\<open>MessageHandler\<close> of a route look at the build
  error: once it is set they are no-ops that return it. Every other builder of the route
  still makes its change and leaves the error set: \<^verbatim>\<open>Messages\<close> appends a types
  matcher, \<^verbatim>\<open>AddMatcher\<close> appends the matcher, \<^verbatim>\<open>Preprocess\<close> stores the preprocessor,
  \<^verbatim>\<open>TalkToSelf\<close> and \<^verbatim>\<open>NoTalkToSelf\<close> set the flag, \<^verbatim>\<open>Subrouter\<close> attaches a new empty
  router that inherits the error, and \<^verbatim>\<open>Hear\<close> with a pattern that compiles appends
  the regexp matcher; all other fields stay as they are. On a router with a build error,
  \<^verbatim>\<open>Handler\<close> and \<^verbatim>\<open>MessageHandler\<close> return that error and still register a route:
  one with no handler and no matchers that carries the router's error and default
  self-talk flag, appended behind the routes of the router, whose other fields stay as
  they are. When \<^verbatim>\<open>Hear\<close> is given a pattern that fails to compile, with or without an
  earlier error, it stores the compile error as the route's build error and appends a
  matcher with a nil regex.
\<close>

theorem build_error_is_sticky:
  "(err r \<noteq> None \<longrightarrow>
      Route_Handler r h = (err r, r)
      \<and> Route_MessageHandler r fn = (err r, r)
      \<and> err (Route_Hear lib r rx) \<noteq> None
      \<and> (regexp_Compile lib rx = Inr re \<longrightarrow>
            Route_Hear lib r rx
              = Route (handler r) (err r) (matchers r @ [RegexpMatcher (Some re) []])
                  (subrouter r) (preprocessor r) (botUserID r) (talkToSelf r))
      \<and> Route_Messages r ts
          = Route (handler r) (err r) (matchers r @ [TypesMatcher ts (botUserID r)])
              (subrouter r) (preprocessor r) (botUserID r) (talkToSelf r)
      \<and> Route_AddMatcher r m
          = Route (handler r) (err r) (matchers r @ [m])
              (subrouter r) (preprocessor r) (botUserID r) (talkToSelf r)
      \<and> Route_Preprocess r f
          = Route (handler r) (err r) (matchers r) (subrouter r) f (botUserID r) (talkToSelf r)
      \<and> Route_TalkToSelf r
          = Route (handler r) (err r) (matchers r) (subrouter r) (preprocessor r) (botUserID r)
              True
      \<and> Route_NoTalkToSelf r
          = Route (handler r) (err r) (matchers r) (subrouter r) (preprocessor r) (botUserID r)
              False
      \<and> Route_Subrouter r
          = Route (handler r) (err r) (matchers r) (Some (SimpleRouter [] [] (err r) False))
              (preprocessor r) (botUserID r) (talkToSelf r))
   \<and> (router_err R \<noteq> None \<longrightarrow>
        SimpleRouter_Handler R h
          = (router_err R,
             SimpleRouter
               (routes R @ [Route None (router_err R) [] None None [] (router_talkToSelf R)])
               (router_botUserID R) (router_err R) (router_talkToSelf R))
        \<and> SimpleRouter_MessageHandler R fn
          = (router_err R,
             SimpleRouter
               (routes R @ [Route None (router_err R) [] None None [] (router_talkToSelf R)])
               (router_botUserID R) (router_err R) (router_talkToSelf R)))
   \<and> (regexp_Compile lib rx = Inl e \<longrightarrow>
        Route_Hear lib r rx
          = Route (handler r) (Some e) (matchers r @ [RegexpMatcher None []])
              (subrouter r) (preprocessor r) (botUserID r) (talkToSelf r))"
  by (cases r; cases R)
    (auto simp: Route_MessageHandler_def Route_Hear_def addRegexpMatcher_def
      Route_Messages_def addTypesMatcher_def SimpleRouter_Handler_def
      SimpleRouter_MessageHandler_def new_Route_def append_route_def
      split: sum.splits)

theorem build_error_is_sticky_witness:
  "regexp_Compile example_lib ''('' = Inl (Error ''missing closing )'')
   \<and> Route_Hear example_lib (new_Route (router_of []) False) ''(''
     = Route None (Some (Error ''missing closing )'')) [RegexpMatcher None []] None None []
         False
   \<and> err (Route None (Some (Error ''missing closing )'')) [RegexpMatcher None []] None None []
         False) \<noteq> None
   \<and> Route_Handler
       (Route None (Some (Error ''missing closing )'')) [RegexpMatcher None []] None None []
          False)
       (Some (HandlerFunc 1))
     = (Some (Error ''missing closing )''),
        Route None (Some (Error ''missing closing )'')) [RegexpMatcher None []] None None []
          False)
   \<and> Route_AddMatcher
       (Route None (Some (Error ''missing closing )'')) [RegexpMatcher None []] None None []
          False)
       always_matcher
     = Route None (Some (Error ''missing closing )'')) [RegexpMatcher None [], always_matcher]
         None None [] False
   \<and> regexp_Compile example_lib ''ping'' = Inr (Regexp ''ping'')
   \<and> Route_Hear example_lib
       (Route None (Some (Error ''missing closing )'')) [RegexpMatcher None []] None None []
          False)
       ''ping''
     = Route None (Some (Error ''missing closing )''))
         [RegexpMatcher None [], RegexpMatcher (Some (Regexp ''ping'')) []] None None [] False
   \<and> router_err (SimpleRouter [] [] (Some (Error ''bad'')) False) \<noteq> None
   \<and> SimpleRouter_Handler (SimpleRouter [] [] (Some (Error ''bad'')) False)
        (Some (HandlerFunc 1))
     = (Some (Error ''bad''),
        SimpleRouter [Route None (Some (Error ''bad'')) [] None None [] False] []
          (Some (Error ''bad'')) False)"
proof -
  have c: "regexp_Compile example_lib ''('' = Inl (Error ''missing closing )'')"
    by (simp add: example_lib_def)
  have c': "regexp_Compile example_lib ''ping'' = Inr (Regexp ''ping'')"
    by (simp add: example_lib_def)
  have n: "new_Route (router_of []) False = Route None None [] None None [] False"
    by (simp add: new_Route_def router_of_def)
  from build_error_is_sticky
      [where r = "Route None (Some (Error ''missing closing )'')) [RegexpMatcher None []]
                    None None [] False"
         and h = "Some (HandlerFunc 1)" and fn = None and lib = example_lib
         and rx = "''ping''" and re = "Regexp ''ping''" and ts = "[]"
         and m = always_matcher and f = None
         and R = "SimpleRouter [] [] (Some (Error ''bad'')) False"
         and e = "Error ''missing closing )''"]
    build_error_is_sticky
      [where r = "new_Route (router_of []) False"
         and h = "Some (HandlerFunc 1)" and fn = None and lib = example_lib
         and rx = "''(''" and re = "Regexp ''ping''" and ts = "[]"
         and m = always_matcher and f = None
         and R = "SimpleRouter [] [] (Some (Error ''bad'')) False"
         and e = "Error ''missing closing )''"]
    c c' n
  show ?thesis by simp
qed

text \<open>
  C8. \<^verbatim>\<open>AlwaysTalkToSelf\<close> and \<^verbatim>\<open>NeverTalkToSelf\<close> change the router's default flag
  and leave the list of routes, and so every route created before the call, as it is.
  A route that \<^verbatim>\<open>Hear\<close>, \<^verbatim>\<open>Messages\<close>, \<^verbatim>\<open>AddMatcher\<close>, \<^verbatim>\<open>Handler\<close> or
  \<^verbatim>\<open>MessageHandler\<close> creates afterwards is appended behind the unchanged earlier routes
  and carries the new default; \<^verbatim>\<open>TalkToSelf\<close> and \<^verbatim>\<open>NoTalkToSelf\<close> of the router
  create a route with the flag they name, whatever the default.
\<close>

theorem router_self_talk_default_is_snapshot:
  "routes (SimpleRouter_AlwaysTalkToSelf r) = routes r
   \<and> routes (SimpleRouter_NeverTalkToSelf r) = routes r
   \<and> router_talkToSelf (SimpleRouter_AlwaysTalkToSelf r) = True
   \<and> router_talkToSelf (SimpleRouter_NeverTalkToSelf r) = False
   \<and> butlast (routes (SimpleRouter_Hear lib (SimpleRouter_AlwaysTalkToSelf r) rx)) = routes r
   \<and> talkToSelf (last (routes (SimpleRouter_Hear lib (SimpleRouter_AlwaysTalkToSelf r) rx)))
       = True
   \<and> butlast (routes (SimpleRouter_Hear lib (SimpleRouter_NeverTalkToSelf r) rx)) = routes r
   \<and> talkToSelf (last (routes (SimpleRouter_Hear lib (SimpleRouter_NeverTalkToSelf r) rx)))
       = False
   \<and> butlast (routes (SimpleRouter_Messages (SimpleRouter_AlwaysTalkToSelf r) ts)) = routes r
   \<and> talkToSelf (last (routes (SimpleRouter_Messages (SimpleRouter_AlwaysTalkToSelf r) ts)))
       = True
   \<and> butlast (routes (SimpleRouter_Messages (SimpleRouter_NeverTalkToSelf r) ts)) = routes r
   \<and> talkToSelf (last (routes (SimpleRouter_Messages (SimpleRouter_NeverTalkToSelf r) ts)))
       = False
   \<and> butlast (routes (SimpleRouter_AddMatcher (SimpleRouter_AlwaysTalkToSelf r) m)) = routes r
   \<and> talkToSelf (last (routes (SimpleRouter_AddMatcher (SimpleRouter_AlwaysTalkToSelf r) m)))
       = True
   \<and> butlast (routes (SimpleRouter_AddMatcher (SimpleRouter_NeverTalkToSelf r) m)) = routes r
   \<and> talkToSelf (last (routes (SimpleRouter_AddMatcher (SimpleRouter_NeverTalkToSelf r) m)))
       = False
   \<and> butlast (routes (snd (SimpleRouter_Handler (SimpleRouter_AlwaysTalkToSelf r) h)))
       = routes r
   \<and> talkToSelf (last (routes (snd (SimpleRouter_Handler (SimpleRouter_AlwaysTalkToSelf r) h))))
       = True
   \<and> butlast (routes (snd (SimpleRouter_Handler (SimpleRouter_NeverTalkToSelf r) h)))
       = routes r
   \<and> talkToSelf (last (routes (snd (SimpleRouter_Handler (SimpleRouter_NeverTalkToSelf r) h))))
       = False
   \<and> butlast (routes (snd (SimpleRouter_MessageHandler (SimpleRouter_AlwaysTalkToSelf r) fn)))
       = routes r
   \<and> talkToSelf
        (last (routes (snd (SimpleRouter_MessageHandler (SimpleRouter_AlwaysTalkToSelf r) fn))))
       = True
   \<and> butlast (routes (snd (SimpleRouter_MessageHandler (SimpleRouter_NeverTalkToSelf r) fn)))
       = routes r
   \<and> talkToSelf
        (last (routes (snd (SimpleRouter_MessageHandler (SimpleRouter_NeverTalkToSelf r) fn))))
       = False
   \<and> butlast (routes (SimpleRouter_TalkToSelf (SimpleRouter_NeverTalkToSelf r))) = routes r
   \<and> talkToSelf (last (routes (SimpleRouter_TalkToSelf (SimpleRouter_NeverTalkToSelf r))))
       = True
   \<and> butlast (routes (SimpleRouter_NoTalkToSelf (SimpleRouter_AlwaysTalkToSelf r))) = routes r
   \<and> talkToSelf (last (routes (SimpleRouter_NoTalkToSelf (SimpleRouter_AlwaysTalkToSelf r))))
       = False"
  by (cases r)
    (simp add: SimpleRouter_Hear_def SimpleRouter_Messages_def SimpleRouter_AddMatcher_def
      SimpleRouter_Handler_def SimpleRouter_MessageHandler_def append_route_def new_Route_def
      SimpleRouter_TalkToSelf_def SimpleRouter_NoTalkToSelf_def newRoute_def
      Route_Hear_def addRegexpMatcher_def Route_Messages_def addTypesMatcher_def
      Route_MessageHandler_def split: sum.splits)

theorem router_self_talk_default_is_snapshot_witness:
  "routes (SimpleRouter_AlwaysTalkToSelf (SimpleRouter_Hear example_lib (router_of []) ''ping''))
     = routes (SimpleRouter_Hear example_lib (router_of []) ''ping'')
   \<and> map talkToSelf
        (routes (SimpleRouter_Hear example_lib
           (SimpleRouter_AlwaysTalkToSelf (SimpleRouter_Hear example_lib (router_of []) ''ping''))
           ''pong''))
     = [False, True]"
  using router_self_talk_default_is_snapshot
    [of "SimpleRouter_Hear example_lib (router_of []) ''ping''" example_lib "''pong''"]
  by (simp add: SimpleRouter_Hear_def append_route_def new_Route_def router_of_def
      Route_Hear_def addRegexpMatcher_def example_lib_def)

text \<open>
  What \<^verbatim>\<open>SetBotID\<close> does reach: the router itself, each of its routes and each matcher
  of those routes.
\<close>

lemma SetBotID_reaches_routes_and_matchers:
  "router_botUserID (SimpleRouter_SetBotID r b) = b
   \<and> (\<forall>route \<in> set (routes (SimpleRouter_SetBotID r b)).
         botUserID route = b \<and> (\<forall>m \<in> set (matchers route). Matcher_botUserID m = b))"
proof -
  have m: "Matcher_botUserID (Matcher_SetBotID m b) = b" for m
    by (cases m) simp_all
  have r1: "botUserID (Route_setBotID route b) = b
      \<and> (\<forall>m \<in> set (matchers (Route_setBotID route b)). Matcher_botUserID m = b)" for route
    by (cases route) (simp add: m)
  show ?thesis
    by (cases r) (simp add: r1)
qed

text \<open>
  C3. \<^verbatim>\<open>SetBotID\<close> on a router whose only route (self-talk enabled, handler 1, one
  matcher) owns a subrouter with one route (handler 2, self-talk disabled): the identity
  is stored on the router, on its route and on that route's matcher, while the
  subrouter and its route keep the empty identity. A message written by the bot then
  matches the nested route although its self-talk is disabled; the same route
  registered on the top router is stopped by the filter. The tree is the one that
  \<^verbatim>\<open>TalkToSelf\<close>, \<^verbatim>\<open>AddMatcher\<close>, \<^verbatim>\<open>Handler\<close>, \<^verbatim>\<open>Subrouter\<close> and \<^verbatim>\<open>Handler\<close> on the
  subrouter build.
\<close>

theorem SetBotID_stops_at_subrouter:
  "Route_Subrouter
       (snd (Route_Handler (Route_AddMatcher (new_Route (router_of []) True) always_matcher)
          (Some (HandlerFunc 1))))
     = Route (Some (HandlerFunc 1)) None [always_matcher] (Some (router_of [])) None [] True
   \<and> snd (SimpleRouter_Handler (router_of []) (Some (HandlerFunc 2)))
     = router_of [handler_route 2]
   \<and> SimpleRouter_SetBotID (router_of [Route_TalkToSelf nested_route]) ''U1''
     = SimpleRouter
         [Route (Some (HandlerFunc 1)) None [Matcher_SetBotID always_matcher ''U1'']
            (Some (router_of [handler_route 2])) None ''U1'' True]
         ''U1'' None False
   \<and> router_botUserID (router_of [handler_route 2]) = []
   \<and> botUserID (handler_route 2) = []
   \<and> talkToSelf (handler_route 2) = False
   \<and> MessageFromContext (Some ping_ctx) = Inr (Some ping_event)
   \<and> User ping_event = ''U1''
   \<and> SimpleRouter_Match example_lib
        (SimpleRouter_SetBotID (router_of [Route_TalkToSelf nested_route]) ''U1'')
        ping_ctx empty_match
     = Inr (True, ping_ctx, \<lparr>match_Route = Some (handler_route 2),
                             match_Handler = Some (HandlerFunc 2)\<rparr>)
   \<and> SimpleRouter_Match example_lib
        (SimpleRouter_SetBotID (router_of [handler_route 2]) ''U1'') ping_ctx empty_match
     = Inr (False, ping_ctx, empty_match)"
  by (simp add: router_of_def nested_route_def handler_route_def always_matcher_def
      new_Route_def SimpleRouter_Handler_def append_route_def
      self_talk_blocked_def run_preprocessor_def ping_ctx_def AddMessageToContext_def
      MessageFromContext_def ping_event_def)

end
